theory Spec2Isabelle
  imports Main "HOL-Library.Word"
begin

section \<open>JavaScript strings\<close>

text \<open>
  A JavaScript string is a sequence of UTF-16 code units; \<open>.length\<close> and
  \<open>.substring\<close> count code units. String literals of the source that are
  not ASCII are written out as their code units.
\<close>

type_synonym jsstring = "16 word list"

definition ascii :: "string \<Rightarrow> jsstring" where
  "ascii s = map of_char s"

text \<open>\<open>s.substring(start, end)\<close> for non-negative arguments: the arguments are
  swapped when \<open>start > end\<close> and clamped to the length.\<close>

definition substring :: "jsstring \<Rightarrow> nat \<Rightarrow> nat \<Rightarrow> jsstring" where
  "substring s start end =
     (let a = min start end; b = max start end in take (b - a) (drop a s))"

text \<open>\<open>xs.slice(start, end)\<close> on an array, for non-negative arguments.\<close>

definition slice :: "'a list \<Rightarrow> nat \<Rightarrow> nat \<Rightarrow> 'a list" where
  "slice xs start end = take (end - start) (drop start xs)"

text \<open>\<open>n.toString()\<close> of a non-negative integer (what \<open>Date.now()\<close> and
  \<open>files.length\<close> are): its decimal digits.\<close>

function toString :: "nat \<Rightarrow> jsstring" where
  "toString n =
     (if n < 10 then [of_nat (48 + n)]
      else toString (n div 10) @ [of_nat (48 + n mod 10)])"
  by pat_completeness auto
termination
  by (relation "measure (\<lambda>n. n)") auto

declare toString.simps [simp del]

text \<open>The number that a string of decimal digits denotes; it reads back what
  \<open>toString\<close> wrote.\<close>

definition digits_value :: "jsstring \<Rightarrow> nat" where
  "digits_value s = foldl (\<lambda>a c. 10 * a + (unat c - 48)) 0 s"

text \<open>The code units that \<open>String.prototype.trim\<close> strips (WhiteSpace and
  LineTerminator of ECMAScript).\<close>

definition is_ws :: "16 word \<Rightarrow> bool" where
  "is_ws c \<longleftrightarrow>
     c \<in> {0x09, 0x0A, 0x0B, 0x0C, 0x0D, 0x20, 0xA0, 0x1680, 0x2028, 0x2029,
          0x202F, 0x205F, 0x3000, 0xFEFF}
     \<or> (0x2000 \<le> c \<and> c \<le> 0x200A)"

definition trim :: "jsstring \<Rightarrow> jsstring" where
  "trim s = rev (dropWhile is_ws (rev (dropWhile is_ws s)))"

section \<open>Data model\<close>

datatype Role = User | Assistant

record Message =
  role :: Role
  content :: jsstring

text \<open>\<open>interface ChatHistory\<close> of the history context. The field \<open>id\<close> is
  \<open>id_h\<close> here, and \<open>messages\<close> is \<open>messages_h\<close>.\<close>

record ChatHistory =
  id_h :: jsstring
  feature :: jsstring
  title :: jsstring
  timestamp :: nat
  preview :: jsstring
  messages_h :: "Message list"

text \<open>\<open>Record<string, ChatHistory[]>\<close>: the own properties of the object.\<close>

type_synonym histories = "jsstring \<rightharpoonup> ChatHistory list"

text \<open>\<open>prev[feature] || []\<close>\<close>

definition or_empty :: "histories \<Rightarrow> jsstring \<Rightarrow> ChatHistory list" where
  "or_empty prev feat = (case prev feat of None \<Rightarrow> [] | Some hs \<Rightarrow> hs)"

section \<open>History store (ChatHistoryProvider)\<close>

text \<open>
  The record that \<open>addHistory\<close> builds. \<open>Date.now()\<close> is read twice, once for
  \<open>id\<close> and once for \<open>timestamp\<close>; the two readings are \<open>now_id\<close> and
  \<open>now_ts\<close>.
\<close>

definition newHistory :: "nat \<Rightarrow> nat \<Rightarrow> jsstring \<Rightarrow> Message list \<Rightarrow> jsstring \<Rightarrow> ChatHistory" where
  "newHistory now_id now_ts feat msgs firstUserMessage =
     (let preview = substring firstUserMessage 0 50 @
                    (if length firstUserMessage > 50 then ascii ''...'' else []);
          title = substring firstUserMessage 0 30
      in \<lparr> id_h = toString now_id, feature = feat, title = title,
           timestamp = now_ts, preview = preview, messages_h = msgs \<rparr>)"

text \<open>
  \<open>addHistory(feature, messages)\<close>. The two early returns make no call of
  \<open>setHistories\<close> (\<open>None\<close>); otherwise the result is the updater function
  that is passed to \<open>setHistories\<close>.
\<close>

definition addHistory_updater ::
  "nat \<Rightarrow> nat \<Rightarrow> jsstring \<Rightarrow> Message list \<Rightarrow> (histories \<Rightarrow> histories) option" where
  "addHistory_updater now_id now_ts feat msgs =
     (if msgs = [] then None
      else
        (case filter (\<lambda>m. role m = User) msgs of
           [] \<Rightarrow> None
         | m0 # _ \<Rightarrow>
             (let h = newHistory now_id now_ts feat msgs (content m0)
              in Some (\<lambda>prev.
                   let featureHistories = or_empty prev feat
                   in prev(feat \<mapsto> slice (h # featureHistories) 0 20)))))"

text \<open>\<open>addHistory\<close> as a transition of the \<open>histories\<close> state: \<open>setHistories\<close>
  applies the updater to the current state.\<close>

definition addHistory :: "nat \<Rightarrow> nat \<Rightarrow> jsstring \<Rightarrow> Message list \<Rightarrow> histories \<Rightarrow> histories" where
  "addHistory now_id now_ts feat msgs prev =
     (case addHistory_updater now_id now_ts feat msgs of
        None \<Rightarrow> prev
      | Some updater \<Rightarrow> updater prev)"

definition deleteHistory :: "jsstring \<Rightarrow> jsstring \<Rightarrow> histories \<Rightarrow> histories" where
  "deleteHistory feat i prev =
     prev(feat \<mapsto> filter (\<lambda>h. id_h h \<noteq> i) (or_empty prev feat))"

definition clearHistory :: "jsstring \<Rightarrow> histories \<Rightarrow> histories" where
  "clearHistory feat prev = prev(feat \<mapsto> [])"

definition loadHistory :: "histories \<Rightarrow> jsstring \<Rightarrow> jsstring \<Rightarrow> ChatHistory option" where
  "loadHistory hs feat i = find (\<lambda>h. id_h h = i) (or_empty hs feat)"

text \<open>A sequence of \<open>addHistory\<close> calls, each with its two clock readings, its
  feature and its transcript, run in order.\<close>

type_synonym add_call = "nat \<times> nat \<times> jsstring \<times> Message list"

fun addHistory_seq :: "add_call list \<Rightarrow> histories \<Rightarrow> histories" where
  "addHistory_seq [] h = h"
| "addHistory_seq ((now_id, now_ts, feat, msgs) # cs) h =
     addHistory_seq cs (addHistory now_id now_ts feat msgs h)"

text \<open>The records one call creates for feature \<open>f\<close> (none or one): what the call
  leaves in \<open>f\<close>'s list when run on the empty mapping. \<open>created\<close> lists them
  for a sequence of calls, oldest first.\<close>

definition created_by :: "jsstring \<Rightarrow> add_call \<Rightarrow> ChatHistory list" where
  "created_by f c =
     (case c of (now_id, now_ts, feat, msgs) \<Rightarrow>
        if feat = f then or_empty (addHistory now_id now_ts feat msgs Map.empty) feat else [])"

definition created :: "jsstring \<Rightarrow> add_call list \<Rightarrow> ChatHistory list" where
  "created f cs = concat (map (created_by f) cs)"

subsection \<open>Hydration\<close>

text \<open>
  A thrown JavaScript error: its \<open>name\<close> and its \<open>message\<close>. A computation
  that may throw returns \<open>js_exn + 'a\<close>; \<open>try_catch\<close> is
  \<open>try { ... } catch (err) { ... }\<close>.
\<close>

datatype js_exn = Exn (name: jsstring) (message: jsstring)

definition try_catch :: "js_exn + 'a \<Rightarrow> (js_exn \<Rightarrow> js_exn + 'a) \<Rightarrow> js_exn + 'a" where
  "try_catch body handler = (case body of Inl err \<Rightarrow> handler err | Inr v \<Rightarrow> Inr v)"

record 'h provider_state =
  histories :: 'h
  isHydrated :: bool

text \<open>
  The mount effect of \<open>ChatHistoryProvider\<close>. \<open>stored\<close> is what
  \<open>localStorage.getItem("chatHistories")\<close> returned (\<open>None\<close> for \<open>null\<close>);
  \<open>parse\<close> is \<open>JSON.parse\<close>, which returns a value or throws. The state is
  whatever \<open>JSON.parse\<close> returns, so its type is left open. An empty string
  is falsy, so \<open>if (stored)\<close> skips it. The handler of the \<open>catch\<close> only
  logs.
\<close>

definition hydrate ::
  "(jsstring \<Rightarrow> js_exn + 'h) \<Rightarrow> jsstring option \<Rightarrow> 'h provider_state \<Rightarrow> js_exn + 'h provider_state" where
  "hydrate parse stored st =
     (case
        (case stored of
           None \<Rightarrow> Inr st
         | Some s \<Rightarrow>
             if s \<noteq> [] then
               try_catch
                 (case parse s of Inl err \<Rightarrow> Inl err | Inr v \<Rightarrow> Inr (st\<lparr>histories := v\<rparr>))
                 (\<lambda>err. Inr st)
             else Inr st)
      of Inl err \<Rightarrow> Inl err
       | Inr st' \<Rightarrow> Inr (st'\<lparr>isHydrated := True\<rparr>))"

text \<open>\<open>useState({})\<close> and \<open>useState(false)\<close>\<close>

definition initial_provider_state :: "histories provider_state" where
  "initial_provider_state = \<lparr>histories = Map.empty, isHydrated = False\<rparr>"

section \<open>Feature pages\<close>

datatype File = File (file_name: jsstring) (file_size: nat)

text \<open>The state of a page component. \<open>abortControllerRef\<close> is \<open>None\<close> for
  \<open>null\<close>, else the \<open>aborted\<close> flag of the controller's signal. The chat
  page has \<open>advancedMode\<close> in addition.\<close>

record page_state =
  messages :: "Message list"
  input :: jsstring
  files :: "File list"
  loading :: bool
  error :: jsstring
  selectedKb :: jsstring
  abortControllerRef :: "bool option"

record chat_state = page_state +
  advancedMode :: bool

text \<open>What is appended to the \<open>FormData\<close> of a request: a file under
  \<open>"files"\<close>, or the JSON descriptor under \<open>"request"\<close>.
  \<open>knowledge_base: selectedKb || undefined\<close> is \<open>None\<close> for the empty
  string.\<close>

datatype request_json =
    ChatRequest (req_text: jsstring) (req_history: "Message list") (req_kb: "jsstring option")
  | SummaryRequest (req_text: jsstring) (req_kb: "jsstring option")

datatype form_entry = FilePart File | RequestPart request_json

definition kb_or_undefined :: "jsstring \<Rightarrow> jsstring option" where
  "kb_or_undefined kb = (if kb \<noteq> [] then Some kb else None)"

text \<open>
  The parsed body of a response, read as an object with the fields the pages
  use: \<open>data.success\<close> by its truthiness, \<open>data.response\<close> and
  \<open>data.summary\<close> as strings, \<open>data.detail\<close> and \<open>data.error\<close> as
  strings that may be absent. (\<open>error\<close> is \<open>error_p\<close> here.)
\<close>

record payload =
  success :: bool
  response :: jsstring
  summary :: jsstring
  detail :: "jsstring option"
  error_p :: "jsstring option"

text \<open>
  What the awaited calls give when nobody cancels: \<open>fetch\<close> rejects; or a
  response arrives (with its \<open>ok\<close> flag) and \<open>response.json()\<close> rejects; or
  the body parses.
\<close>

datatype remote =
    FetchRejects js_exn
  | JsonRejects bool js_exn
  | Body bool payload

definition AbortError :: js_exn where
  "AbortError = Exn (ascii ''AbortError'') (ascii ''signal is aborted without reason'')"

text \<open>A request whose signal is aborted before it resolves rejects with a
  \<open>DOMException\<close> named \<open>AbortError\<close>.\<close>

definition settle :: "bool option \<Rightarrow> remote \<Rightarrow> remote" where
  "settle signal r = (if signal = Some True then FetchRejects AbortError else r)"

text \<open>Truthiness of a string that may be absent, and \<open>a || b\<close> on such.\<close>

definition truthy :: "jsstring option \<Rightarrow> bool" where
  "truthy v = (case v of None \<Rightarrow> False | Some s \<Rightarrow> s \<noteq> [])"

definition or_js :: "jsstring option \<Rightarrow> jsstring option \<Rightarrow> jsstring option" where
  "or_js a b = (if truthy a then a else b)"

definition or_default :: "jsstring option \<Rightarrow> jsstring \<Rightarrow> jsstring" where
  "or_default a d = (case a of None \<Rightarrow> d | Some s \<Rightarrow> if s \<noteq> [] then s else d)"

text \<open>The string literals of the pages, as code units.\<close>

definition msg_validation_chat :: jsstring where
  "msg_validation_chat =
     [0x56, 0x75, 0x69, 0x20, 0x6c, 0xf2, 0x6e, 0x67, 0x20, 0x6e, 0x68, 0x1ead, 0x70, 0x20,
      0x74, 0x69, 0x6e, 0x20, 0x6e, 0x68, 0x1eaf, 0x6e, 0x20, 0x68, 0x6f, 0x1eb7, 0x63, 0x20,
      0x74, 0x1ea3, 0x69, 0x20, 0x6c, 0xea, 0x6e, 0x20, 0x74, 0x1ec7, 0x70]"

definition msg_validation_sb :: jsstring where
  "msg_validation_sb =
     [0x56, 0x75, 0x69, 0x20, 0x6c, 0xf2, 0x6e, 0x67, 0x20, 0x6e, 0x68, 0x1ead, 0x70, 0x20,
      0x76, 0x103, 0x6e, 0x20, 0x62, 0x1ea3, 0x6e, 0x20, 0x68, 0x6f, 0x1eb7, 0x63, 0x20,
      0x74, 0x1ea3, 0x69, 0x20, 0x6c, 0xea, 0x6e, 0x20, 0x74, 0x1ec7, 0x70]"

definition msg_cannot_send :: jsstring where
  "msg_cannot_send =
     [0x4b, 0x68, 0xf4, 0x6e, 0x67, 0x20, 0x74, 0x68, 0x1ec3, 0x20, 0x67, 0x1eed, 0x69, 0x20,
      0x74, 0x69, 0x6e, 0x20, 0x6e, 0x68, 0x1eaf, 0x6e]"

definition msg_cannot_summarize :: jsstring where
  "msg_cannot_summarize =
     [0x4b, 0x68, 0xf4, 0x6e, 0x67, 0x20, 0x74, 0x68, 0x1ec3, 0x20, 0x74, 0x1ea1, 0x6f, 0x20,
      0x74, 0xf3, 0x6d, 0x20, 0x74, 0x1eaf, 0x74]"

definition msg_canceled :: jsstring where
  "msg_canceled =
     [0x110, 0xe3, 0x20, 0x68, 0x1ee7, 0x79, 0x20, 0x79, 0xea, 0x75, 0x20, 0x63, 0x1ea7, 0x75]"

definition msg_generic :: jsstring where
  "msg_generic =
     [0x43, 0xf3, 0x20, 0x6c, 0x1ed7, 0x69, 0x20, 0x78, 0x1ea3, 0x79, 0x20, 0x72, 0x61, 0x2e,
      0x20, 0x56, 0x75, 0x69, 0x20, 0x6c, 0xf2, 0x6e, 0x67, 0x20, 0x74, 0x68, 0x1eed, 0x20,
      0x6c, 0x1ea1, 0x69, 0x2e]"

text \<open>The marker of the template literals for \<open>n\<close> attached files: an
  opening bracket, \<open>files.length\<close> in decimal, the words for "attached
  files" and a closing bracket.\<close>

definition attachment_marker :: "nat \<Rightarrow> jsstring" where
  "attachment_marker n =
     [0x5b] @ toString n @
     [0x20, 0x74, 0x1ec7, 0x70, 0x20, 0x111, 0xed, 0x6e, 0x68, 0x20, 0x6b, 0xe8, 0x6d, 0x5d]"

text \<open>What a run of \<open>handleSend\<close> leaves: the component state, the
  \<open>FormData\<close> given to \<open>fetch\<close> (\<open>None\<close> when no request was made) and
  the calls of \<open>addHistory\<close> it made, in order.\<close>

record 'st send_result =
  final :: 'st
  sent :: "form_entry list option"
  history_calls :: "(jsstring \<times> Message list) list"

text \<open>\<open>handleCancel\<close>, the same on both pages.\<close>

definition handleCancel :: "'a page_state_scheme \<Rightarrow> 'a page_state_scheme" where
  "handleCancel st =
     (case abortControllerRef st of
        None \<Rightarrow> st
      | Some _ \<Rightarrow> st\<lparr>abortControllerRef := Some True\<rparr>)"

subsection \<open>Chat page\<close>

definition userMessage :: "chat_state \<Rightarrow> Message" where
  "userMessage st =
     \<lparr>role = User,
      content = (if length (files st) > 0
                 then attachment_marker (length (files st)) @ [0x20] @ input st
                 else input st)\<rparr>"

definition formData :: "chat_state \<Rightarrow> form_entry list" where
  "formData st =
     (if advancedMode st \<and> length (files st) > 0 then map FilePart (files st) else []) @
     [RequestPart (ChatRequest (input st) (messages st) (kb_or_undefined (selectedKb st)))]"

text \<open>The body of the \<open>try\<close> from the first \<open>await\<close> on, given how the
  request settled; \<open>updatedMessages\<close> is the closure's variable.\<close>

definition try_block ::
  "Message list \<Rightarrow> remote \<Rightarrow> chat_state \<Rightarrow>
     js_exn + (chat_state \<times> (jsstring \<times> Message list) list)" where
  "try_block updatedMessages settled st =
     (case settled of
        FetchRejects err \<Rightarrow> Inl err
      | JsonRejects ok err \<Rightarrow> Inl err
      | Body ok data \<Rightarrow>
          if \<not> ok \<or> \<not> success data then
            Inl (Exn (ascii ''Error'')
                   (or_default (or_js (detail data) (error_p data)) msg_cannot_send))
          else
            (let assistantMessage = \<lparr>role = Assistant, content = response data\<rparr>;
                 newMessages = updatedMessages @ [assistantMessage]
             in Inr (st\<lparr>messages := newMessages\<rparr>, [(ascii ''chat'', newMessages)])))"

text \<open>The \<open>catch\<close>; \<open>messages0\<close> is the closure's \<open>messages\<close>, the transcript
  before the submit.\<close>

definition catch_block :: "Message list \<Rightarrow> js_exn \<Rightarrow> chat_state \<Rightarrow> chat_state" where
  "catch_block messages0 err st =
     (if name err = ascii ''AbortError''
      then st\<lparr>messages := messages0, error := msg_canceled\<rparr>
      else st\<lparr>error := (if message err \<noteq> [] then message err else msg_generic)\<rparr>)"

text \<open>
  \<open>handleSend\<close> of the chat page. \<open>cancel\<close> says whether \<open>handleCancel\<close> runs
  while the request is pending; \<open>r\<close> is what the request gives otherwise.
\<close>

definition handleSend :: "bool \<Rightarrow> remote \<Rightarrow> chat_state \<Rightarrow> chat_state send_result" where
  "handleSend cancel r st =
     (if trim (input st) = [] \<and> length (files st) = 0 then
        \<lparr>final = st\<lparr>error := msg_validation_chat\<rparr>, sent = None, history_calls = []\<rparr>
      else
        (let updatedMessages = messages st @ [userMessage st];
             st1 = st\<lparr>messages := updatedMessages, input := [], files := [],
                      loading := True, error := [], abortControllerRef := Some False\<rparr>;
             st2 = (if cancel then handleCancel st1 else st1);
             settled = settle (abortControllerRef st2) r;
             (st3, calls) =
               (case try_block updatedMessages settled st2 of
                  Inr done \<Rightarrow> done
                | Inl err \<Rightarrow> (catch_block (messages st) err st2, []))
         in \<lparr>final = st3\<lparr>loading := False\<rparr>, sent = Some (formData st),
             history_calls = calls\<rparr>))"

subsection \<open>Study-buddy page\<close>

definition userMessage_sb :: "page_state \<Rightarrow> Message" where
  "userMessage_sb st =
     \<lparr>role = User,
      content = (if length (files st) > 0
                 then attachment_marker (length (files st))
                 else input st)\<rparr>"

definition formData_sb :: "page_state \<Rightarrow> form_entry list" where
  "formData_sb st =
     (if length (files st) > 0 then map FilePart (files st)
      else if trim (input st) \<noteq> [] then
        [RequestPart (SummaryRequest (input st) (kb_or_undefined (selectedKb st)))]
      else [])"

definition try_block_sb ::
  "Message list \<Rightarrow> remote \<Rightarrow> page_state \<Rightarrow>
     js_exn + (page_state \<times> (jsstring \<times> Message list) list)" where
  "try_block_sb updatedMessages settled st =
     (case settled of
        FetchRejects err \<Rightarrow> Inl err
      | JsonRejects ok err \<Rightarrow>
          if \<not> ok then Inl (Exn (ascii ''Error'') msg_cannot_summarize) else Inl err
      | Body ok data \<Rightarrow>
          if \<not> ok then Inl (Exn (ascii ''Error'') msg_cannot_summarize)
          else
            (let assistantMessage = \<lparr>role = Assistant, content = summary data\<rparr>;
                 newMessages = updatedMessages @ [assistantMessage]
             in Inr (st\<lparr>messages := newMessages\<rparr>, [(ascii ''study-buddy'', newMessages)])))"

definition catch_block_sb :: "Message list \<Rightarrow> js_exn \<Rightarrow> page_state \<Rightarrow> page_state" where
  "catch_block_sb messages0 err st =
     (if name err = ascii ''AbortError''
      then st\<lparr>messages := messages0, error := msg_canceled\<rparr>
      else st\<lparr>error := msg_generic\<rparr>)"

definition handleSend_sb :: "bool \<Rightarrow> remote \<Rightarrow> page_state \<Rightarrow> page_state send_result" where
  "handleSend_sb cancel r st =
     (if trim (input st) = [] \<and> length (files st) = 0 then
        \<lparr>final = st\<lparr>error := msg_validation_sb\<rparr>, sent = None, history_calls = []\<rparr>
      else
        (let updatedMessages = messages st @ [userMessage_sb st];
             st1 = st\<lparr>messages := updatedMessages, input := [], files := [],
                      loading := True, error := [], abortControllerRef := Some False\<rparr>;
             st2 = (if cancel then handleCancel st1 else st1);
             settled = settle (abortControllerRef st2) r;
             (st3, calls) =
               (case try_block_sb updatedMessages settled st2 of
                  Inr done \<Rightarrow> done
                | Inl err \<Rightarrow> (catch_block_sb (messages st) err st2, []))
         in \<lparr>final = st3\<lparr>loading := False\<rparr>, sent = Some (formData_sb st),
             history_calls = calls\<rparr>))"

section \<open>Properties of the history store\<close>

lemma addHistory_no_user:
  "filter (\<lambda>m. role m = User) msgs = [] \<Longrightarrow> addHistory now_id now_ts feat msgs prev = prev"
  by (simp add: addHistory_def addHistory_updater_def)

lemma find_filter_Cons:
  "find P xs = Some x \<Longrightarrow> \<exists>ys. filter P xs = x # ys"
  by (induction xs) (auto split: if_splits)

lemma find_None_filter: "find P xs = None \<Longrightarrow> filter P xs = []"
  by (induction xs) (auto split: if_splits)

lemma or_empty_upd [simp]: "or_empty (h(f \<mapsto> xs)) g = (if g = f then xs else or_empty h g)"
  by (simp add: or_empty_def)

lemma or_empty_empty [simp]: "or_empty Map.empty g = []"
  by (simp add: or_empty_def)

lemma addHistory_user:
  assumes "find (\<lambda>m. role m = User) msgs = Some m0"
  shows "addHistory now_id now_ts feat msgs prev =
           prev(feat \<mapsto> take 20 (newHistory now_id now_ts feat msgs (content m0) # or_empty prev feat))"
proof -
  obtain ys where f: "filter (\<lambda>m. role m = User) msgs = m0 # ys"
    using find_filter_Cons [OF assms] by blast
  then have "msgs \<noteq> []" by auto
  with f show ?thesis
    by (simp add: addHistory_def addHistory_updater_def slice_def Let_def)
qed

lemma addHistory_other:
  "g \<noteq> feat \<Longrightarrow> or_empty (addHistory now_id now_ts feat msgs prev) g = or_empty prev g"
  by (cases "find (\<lambda>m. role m = User) msgs")
     (simp_all add: addHistory_user addHistory_no_user find_None_filter)

lemma created_by_other: "feat \<noteq> f \<Longrightarrow> created_by f (a, b, feat, msgs) = []"
  by (simp add: created_by_def)

lemma created_by_user:
  "find (\<lambda>m. role m = User) msgs = Some m0 \<Longrightarrow>
     created_by f (a, b, f, msgs) = [newHistory a b f msgs (content m0)]"
  by (simp add: created_by_def addHistory_user)

lemma created_by_none:
  "find (\<lambda>m. role m = User) msgs = None \<Longrightarrow> created_by f (a, b, f, msgs) = []"
  by (simp add: created_by_def addHistory_no_user find_None_filter)

lemma rev_created_by: "rev (created_by f c) = created_by f c"
proof -
  obtain a b feat msgs where c: "c = (a, b, feat, msgs)" by (cases c) auto
  show ?thesis
  proof (cases "feat = f")
    case False
    with c show ?thesis by (simp add: created_by_other)
  next
    case True
    with c show ?thesis
      by (cases "find (\<lambda>m. role m = User) msgs")
         (simp_all add: created_by_none created_by_user)
  qed
qed

lemma created_Cons: "rev (created f (c # cs)) = rev (created f cs) @ created_by f c"
  by (simp add: created_def rev_created_by)

lemma created_Nil: "created f [] = []"
  by (simp add: created_def)

lemma addHistory_step:
  "length (or_empty prev f) \<le> 20 \<Longrightarrow>
   or_empty (addHistory a b feat msgs prev) f = take 20 (created_by f (a, b, feat, msgs) @ or_empty prev f)"
proof (cases "feat = f")
  case False
  assume "length (or_empty prev f) \<le> 20"
  with False show ?thesis by (simp add: addHistory_other created_by_other)
next
  case True
  assume le: "length (or_empty prev f) \<le> 20"
  show ?thesis
  proof (cases "find (\<lambda>m. role m = User) msgs")
    case None
    with True le show ?thesis
      by (simp add: created_by_none addHistory_no_user find_None_filter)
  next
    case (Some m0)
    with True show ?thesis
      by (simp add: created_by_user addHistory_user)
  qed
qed

lemma take_append_take: "take n (xs @ take n ys) = take n (xs @ ys)"
  by (simp add: min_def)

lemma addHistory_seq_sessions:
  "length (or_empty h f) \<le> 20 \<Longrightarrow>
   or_empty (addHistory_seq cs h) f = take 20 (rev (created f cs) @ or_empty h f)"
proof (induction cs arbitrary: h)
  case Nil
  then show ?case by (simp add: created_Nil)
next
  case (Cons c cs)
  obtain a b feat msgs where c: "c = (a, b, feat, msgs)" by (cases c) auto
  let ?h' = "addHistory a b feat msgs h"
  have step: "or_empty ?h' f = take 20 (created_by f c @ or_empty h f)"
    using Cons.prems c by (simp add: addHistory_step)
  then have "length (or_empty ?h' f) \<le> 20" by simp
  then have "or_empty (addHistory_seq cs ?h') f = take 20 (rev (created f cs) @ or_empty ?h' f)"
    by (rule Cons.IH)
  also have "\<dots> = take 20 (rev (created f cs) @ created_by f c @ or_empty h f)"
    by (simp only: step take_append_take)
  finally show ?case
    using c by (simp add: created_Cons)
qed

lemma unat_digit:
  assumes "d < 10"
  shows "unat (48 + word_of_nat d :: 16 word) = 48 + d"
proof -
  have "unat (word_of_nat (48 + d) :: 16 word) = (48 + d) mod 2 ^ LENGTH(16)"
    by (rule unat_of_nat)
  also have "\<dots> = 48 + d"
    using assms by simp
  finally show ?thesis
    by simp
qed

lemma digits_value_toString: "digits_value (toString n) = n"
proof (induction n rule: toString.induct)
  case (1 n)
  show ?case
  proof (cases "n < 10")
    case True
    then show ?thesis
      by (simp add: toString.simps [of n] digits_value_def unat_digit)
  next
    case False
    then have "digits_value (toString (n div 10)) = n div 10"
      using "1.IH" by simp
    with False show ?thesis
      by (simp add: toString.simps [of n] digits_value_def unat_digit)
  qed
qed

lemma toString_inject: "toString m = toString n \<Longrightarrow> m = n"
  by (metis digits_value_toString)

lemma id_h_newHistory_eq:
  "id_h (newHistory a b f msgs s) = id_h (newHistory a' b' f' msgs' s') \<longleftrightarrow> a = a'"
  by (auto simp add: newHistory_def Let_def dest: toString_inject)

lemma title_newHistory: "title (newHistory a b f msgs s) = take 30 s"
  by (simp add: newHistory_def substring_def Let_def)

lemma preview_newHistory:
  "preview (newHistory a b f msgs s) = (if length s \<le> 50 then s else take 50 s @ ascii ''...'')"
  by (simp add: newHistory_def substring_def Let_def)

text \<open>
  Claim C7. For every feature and every transcript with no USER turn, the empty
  transcript included, \<open>addHistory\<close> makes no call of \<open>setHistories\<close>: the
  whole mapping is unchanged, and so the feature's session list.
\<close>

theorem C7_addHistory_noop_without_user_turn:
  "\<forall>m \<in> set msgs. role m \<noteq> User \<Longrightarrow>
     addHistory_updater now_id now_ts feat msgs = None
     \<and> addHistory now_id now_ts feat msgs prev = prev
     \<and> or_empty (addHistory now_id now_ts feat msgs prev) feat = or_empty prev feat"
proof -
  assume "\<forall>m \<in> set msgs. role m \<noteq> User"
  then have "filter (\<lambda>m. role m = User) msgs = []"
    by (simp add: filter_empty_conv)
  then show ?thesis
    by (simp add: addHistory_no_user addHistory_updater_def)
qed

theorem C7_witness:
  "addHistory 7 7 (ascii ''chat'') [\<lparr>role = Assistant, content = ascii ''hi''\<rparr>]
     (Map.empty(ascii ''chat'' \<mapsto> [])) = Map.empty(ascii ''chat'' \<mapsto> [])
   \<and> addHistory 7 7 (ascii ''chat'') [] Map.empty = Map.empty"
  using C7_addHistory_noop_without_user_turn
          [of "[\<lparr>role = Assistant, content = ascii ''hi''\<rparr>]" 7 7 "ascii ''chat''"
              "Map.empty(ascii ''chat'' \<mapsto> [])"]
        C7_addHistory_noop_without_user_turn [of "[]" 7 7 "ascii ''chat''" Map.empty]
  by simp

text \<open>
  Claim C6. When the first USER turn of the transcript has content \<open>s\<close>, the
  record that \<open>addHistory\<close> puts at the head of the feature's list has as
  title the first \<open>min |s| 30\<close> code units of \<open>s\<close> and nothing more, and as
  preview \<open>s\<close> itself when \<open>|s| \<le> 50\<close>, else the first 50 code units of \<open>s\<close>
  followed by three full stops. For \<open>|s| = 35\<close> the title is the first 30 code
  units and the preview is \<open>s\<close>. Lengths are those of JavaScript strings.
\<close>

theorem C6_title_and_preview:
  assumes "find (\<lambda>m. role m = User) msgs = Some m0" and "content m0 = s"
  shows "\<exists>h rest. or_empty (addHistory now_id now_ts feat msgs prev) feat = h # rest
           \<and> h = newHistory now_id now_ts feat msgs s
           \<and> title h = take (min (length s) 30) s
           \<and> length (title h) = min (length s) 30
           \<and> preview h = (if length s \<le> 50 then s else take 50 s @ [0x2E, 0x2E, 0x2E])
           \<and> (length s = 35 \<longrightarrow> title h = take 30 s \<and> preview h = s)"
  using assms
  by (simp add: addHistory_user title_newHistory preview_newHistory ascii_def min_def)

theorem C6_witness:
  "title (hd (or_empty (addHistory 1 1 (ascii ''chat'')
        [\<lparr>role = Assistant, content = ascii ''hello''\<rparr>,
         \<lparr>role = User, content = replicate 35 0x61\<rparr>,
         \<lparr>role = User, content = replicate 60 0x62\<rparr>] Map.empty) (ascii ''chat''))) = replicate 30 0x61
   \<and> preview (hd (or_empty (addHistory 1 1 (ascii ''chat'')
        [\<lparr>role = Assistant, content = ascii ''hello''\<rparr>,
         \<lparr>role = User, content = replicate 35 0x61\<rparr>,
         \<lparr>role = User, content = replicate 60 0x62\<rparr>] Map.empty) (ascii ''chat''))) = replicate 35 0x61
   \<and> preview (hd (or_empty (addHistory 1 1 (ascii ''chat'')
        [\<lparr>role = User, content = replicate 60 0x62\<rparr>] Map.empty) (ascii ''chat'')))
       = replicate 50 0x62 @ [0x2E, 0x2E, 0x2E]"
  using C6_title_and_preview
          [of "[\<lparr>role = Assistant, content = ascii ''hello''\<rparr>,
                \<lparr>role = User, content = replicate 35 0x61\<rparr>,
                \<lparr>role = User, content = replicate 60 0x62\<rparr>]"
              "\<lparr>role = User, content = replicate 35 0x61\<rparr>" "replicate 35 0x61"
              1 1 "ascii ''chat''" Map.empty]
        C6_title_and_preview
          [of "[\<lparr>role = User, content = replicate 60 0x62\<rparr>]"
              "\<lparr>role = User, content = replicate 60 0x62\<rparr>" "replicate 60 0x62"
              1 1 "ascii ''chat''" Map.empty]
  by auto

text \<open>
  Claim C4. For every feature, a sequence of \<open>addHistory\<close> calls run on a
  mapping whose list for the feature has at most 20 records leaves at most 20
  there: the 20 first of the records created for the feature, newest first,
  followed by the old ones. From the empty mapping these are the 20 most recent
  records, newest first. Adding to a list of exactly 20 puts the new record
  first, keeps the others in order, drops the last one and leaves 20.
\<close>

theorem C4_bounded_newest_first:
  "(length (or_empty h0 f) \<le> 20 \<longrightarrow>
      length (or_empty (addHistory_seq cs h0) f) \<le> 20
      \<and> or_empty (addHistory_seq cs h0) f = take 20 (rev (created f cs) @ or_empty h0 f))
   \<and> or_empty (addHistory_seq cs Map.empty) f = take 20 (rev (created f cs))
   \<and> (length (or_empty prev f) = 20 \<and> find (\<lambda>m. role m = User) msgs = Some m0 \<longrightarrow>
        or_empty (addHistory now_id now_ts f msgs prev) f
          = newHistory now_id now_ts f msgs (content m0) # butlast (or_empty prev f)
        \<and> length (or_empty (addHistory now_id now_ts f msgs prev) f) = 20)"
proof (intro conjI impI)
  assume "length (or_empty h0 f) \<le> 20"
  then show "or_empty (addHistory_seq cs h0) f = take 20 (rev (created f cs) @ or_empty h0 f)"
    by (rule addHistory_seq_sessions)
  then show "length (or_empty (addHistory_seq cs h0) f) \<le> 20"
    by simp
next
  show "or_empty (addHistory_seq cs Map.empty) f = take 20 (rev (created f cs))"
    using addHistory_seq_sessions [of Map.empty f cs] by simp
next
  assume a: "length (or_empty prev f) = 20 \<and> find (\<lambda>m. role m = User) msgs = Some m0"
  then have "take 19 (or_empty prev f) = butlast (or_empty prev f)"
    by (simp add: butlast_conv_take)
  with a show "or_empty (addHistory now_id now_ts f msgs prev) f
          = newHistory now_id now_ts f msgs (content m0) # butlast (or_empty prev f)"
    by (simp add: addHistory_user)
  with a show "length (or_empty (addHistory now_id now_ts f msgs prev) f) = 20"
    by simp
qed

theorem C4_witness:
  "map timestamp (or_empty (addHistory 21 21 (ascii ''chat'') [\<lparr>role = User, content = ascii ''q''\<rparr>]
      (Map.empty(ascii ''chat'' \<mapsto>
         map (\<lambda>n. newHistory n n (ascii ''chat'') [] (ascii ''q''))
             [20, 19, 18, 17, 16, 15, 14, 13, 12, 11, 10, 9, 8, 7, 6, 5, 4, 3, 2, 1])))
      (ascii ''chat''))
   = [21, 20, 19, 18, 17, 16, 15, 14, 13, 12, 11, 10, 9, 8, 7, 6, 5, 4, 3, 2]
   \<and> map timestamp (or_empty (addHistory_seq
        [(1, 1, ascii ''chat'', [\<lparr>role = User, content = ascii ''a''\<rparr>]),
         (2, 2, ascii ''chat'', [\<lparr>role = User, content = ascii ''b''\<rparr>])] Map.empty) (ascii ''chat''))
      = [2, 1]"
  using C4_bounded_newest_first
          [of "Map.empty(ascii ''chat'' \<mapsto>
                 map (\<lambda>n. newHistory n n (ascii ''chat'') [] (ascii ''q''))
                   [20, 19, 18, 17, 16, 15, 14, 13, 12, 11, 10, 9, 8, 7, 6, 5, 4, 3, 2, 1])"
              "ascii ''chat''" "[]"
              "Map.empty(ascii ''chat'' \<mapsto>
                 map (\<lambda>n. newHistory n n (ascii ''chat'') [] (ascii ''q''))
                   [20, 19, 18, 17, 16, 15, 14, 13, 12, 11, 10, 9, 8, 7, 6, 5, 4, 3, 2, 1])"
              "[\<lparr>role = User, content = ascii ''q''\<rparr>]"
              "\<lparr>role = User, content = ascii ''q''\<rparr>" 21 21]
        C4_bounded_newest_first
          [of Map.empty "ascii ''chat''"
              "[(1, 1, ascii ''chat'', [\<lparr>role = User, content = ascii ''a''\<rparr>]),
                (2, 2, ascii ''chat'', [\<lparr>role = User, content = ascii ''b''\<rparr>])]"]
  by (simp add: created_def created_by_def addHistory_def addHistory_updater_def slice_def
       newHistory_def Let_def)

text \<open>
  Claim C5 asks for pairwise distinct ids. The id is the decimal clock reading,
  so two records have the same id exactly when their calls read the same
  millisecond (\<open>id_h_newHistory_eq\<close>). Here two calls do: both records get
  the same id, and \<open>deleteHistory\<close> with that id removes both.
\<close>

theorem C5_same_clock_reading_same_id:
  "map id_h (or_empty
       (addHistory 1700000000000 1700000000001 (ascii ''chat'') [\<lparr>role = User, content = ascii ''b''\<rparr>]
         (addHistory 1700000000000 1700000000000 (ascii ''chat'') [\<lparr>role = User, content = ascii ''a''\<rparr>]
            Map.empty)) (ascii ''chat''))
     = [toString 1700000000000, toString 1700000000000]
   \<and> map preview (or_empty
       (addHistory 1700000000000 1700000000001 (ascii ''chat'') [\<lparr>role = User, content = ascii ''b''\<rparr>]
         (addHistory 1700000000000 1700000000000 (ascii ''chat'') [\<lparr>role = User, content = ascii ''a''\<rparr>]
            Map.empty)) (ascii ''chat''))
     = [ascii ''b'', ascii ''a'']
   \<and> or_empty (deleteHistory (ascii ''chat'') (toString 1700000000000)
       (addHistory 1700000000000 1700000000001 (ascii ''chat'') [\<lparr>role = User, content = ascii ''b''\<rparr>]
         (addHistory 1700000000000 1700000000000 (ascii ''chat'') [\<lparr>role = User, content = ascii ''a''\<rparr>]
            Map.empty))) (ascii ''chat'') = []"
  by (simp add: addHistory_def addHistory_updater_def slice_def newHistory_def Let_def
       substring_def deleteHistory_def ascii_def)

lemma hydrate_total:
  "hydrate parse stored st =
     Inr (st\<lparr>histories :=
               (case stored of None \<Rightarrow> histories st
                | Some s \<Rightarrow>
                    if s \<noteq> [] then (case parse s of Inl err \<Rightarrow> histories st | Inr v \<Rightarrow> v)
                    else histories st),
             isHydrated := True\<rparr>)"
  by (simp add: hydrate_def try_catch_def split: option.splits sum.splits)

text \<open>
  Claim C8. Whatever \<open>getItem\<close> returned, the mount effect ends without an
  exception and marks the provider as hydrated. When nothing is stored, or the
  stored string is empty or fails to parse, the state stays as it was, which
  for the provider is the empty mapping; when the string parses, the state is
  the parsed value.
\<close>

theorem C8_hydrate_never_raises:
  "(\<exists>st'. hydrate parse stored st = Inr st' \<and> isHydrated st')
   \<and> (stored = None \<or> stored = Some [] \<or> (\<exists>s err. stored = Some s \<and> parse s = Inl err) \<longrightarrow>
        hydrate parse stored st = Inr (st\<lparr>isHydrated := True\<rparr>))
   \<and> (stored = None \<or> stored = Some [] \<or> (\<exists>s err. stored = Some s \<and> parse0 s = Inl err) \<longrightarrow>
        hydrate parse0 stored initial_provider_state
          = Inr \<lparr>histories = Map.empty, isHydrated = True\<rparr>)
   \<and> (\<forall>s v. stored = Some s \<and> s \<noteq> [] \<and> parse s = Inr v \<longrightarrow>
        hydrate parse stored st = Inr (st\<lparr>histories := v, isHydrated := True\<rparr>))"
  by (auto simp add: hydrate_total initial_provider_state_def)

theorem C8_witness:
  "hydrate (\<lambda>s. if s = ascii ''{}'' then Inr Map.empty
                 else Inl (Exn (ascii ''SyntaxError'') (ascii ''Unexpected token'')))
      (Some (ascii ''{oops'')) initial_provider_state
     = Inr \<lparr>histories = Map.empty, isHydrated = True\<rparr>
   \<and> hydrate (\<lambda>s. Inr [s]) (Some (ascii ''[]'')) \<lparr>histories = [], isHydrated = False\<rparr>
     = Inr \<lparr>histories = [ascii ''[]''], isHydrated = True\<rparr>"
  using C8_hydrate_never_raises
          [of "\<lambda>s. if s = ascii ''{}'' then Inr Map.empty
                   else Inl (Exn (ascii ''SyntaxError'') (ascii ''Unexpected token''))"
              "Some (ascii ''{oops'')" initial_provider_state
              "\<lambda>s. if s = ascii ''{}'' then Inr Map.empty
                   else Inl (Exn (ascii ''SyntaxError'') (ascii ''Unexpected token''))"]
        C8_hydrate_never_raises
          [of "\<lambda>s. Inr [s]" "Some (ascii ''[]'')" "\<lparr>histories = [], isHydrated = False\<rparr>"
              "\<lambda>s. Inl (Exn [] [])"]
  by (simp add: ascii_def initial_provider_state_def)


section \<open>Properties of the pages\<close>

lemmas chat_defs = handleSend_def try_block_def catch_block_def settle_def handleCancel_def

lemma AbortError_name [simp]: "name AbortError = ascii ''AbortError''"
  by (simp add: AbortError_def)

lemma Error_not_AbortError [simp]: "ascii ''Error'' \<noteq> ascii ''AbortError''"
  by (simp add: ascii_def)

lemma or_default_nonempty: "d \<noteq> [] \<Longrightarrow> or_default a d \<noteq> []"
  by (simp add: or_default_def split: option.splits)

lemma msg_cannot_send_nonempty [simp]: "msg_cannot_send \<noteq> []"
  by (simp add: msg_cannot_send_def)

lemma handleSend_invalid:
  "trim (input st) = [] \<and> files st = [] \<Longrightarrow>
     handleSend cancel r st =
       \<lparr>final = st\<lparr>error := msg_validation_chat\<rparr>, sent = None, history_calls = []\<rparr>"
  by (simp add: handleSend_def)

lemma handleSend_cancel:
  "\<not> (trim (input st) = [] \<and> files st = []) \<Longrightarrow>
     handleSend True r st =
       \<lparr>final = st\<lparr>messages := messages st, input := [], files := [], loading := False,
                    error := msg_canceled, abortControllerRef := Some True\<rparr>,
        sent = Some (formData st), history_calls = []\<rparr>"
  by (simp add: chat_defs Let_def)

lemma handleSend_success:
  "\<not> (trim (input st) = [] \<and> files st = []) \<Longrightarrow> success data \<Longrightarrow>
     handleSend False (Body True data) st =
       \<lparr>final = st\<lparr>messages := messages st @ [userMessage st, \<lparr>role = Assistant, content = response data\<rparr>],
                    input := [], files := [], loading := False,
                    error := [], abortControllerRef := Some False\<rparr>,
        sent = Some (formData st),
        history_calls = [(ascii ''chat'',
           messages st @ [userMessage st, \<lparr>role = Assistant, content = response data\<rparr>])]\<rparr>"
  by (simp add: chat_defs Let_def)

lemma handleSend_body_failure:
  "\<not> (trim (input st) = [] \<and> files st = []) \<Longrightarrow> \<not> ok \<or> \<not> success data \<Longrightarrow>
     handleSend False (Body ok data) st =
       \<lparr>final = st\<lparr>messages := messages st @ [userMessage st],
                    input := [], files := [], loading := False,
                    error := or_default (or_js (detail data) (error_p data)) msg_cannot_send,
                    abortControllerRef := Some False\<rparr>,
        sent = Some (formData st), history_calls = []\<rparr>"
  by (auto simp add: chat_defs Let_def or_default_nonempty)

lemma handleSend_rejects:
  "\<not> (trim (input st) = [] \<and> files st = []) \<Longrightarrow> name err \<noteq> ascii ''AbortError'' \<Longrightarrow>
     r = FetchRejects err \<or> r = JsonRejects ok err \<Longrightarrow>
     handleSend False r st =
       \<lparr>final = st\<lparr>messages := messages st @ [userMessage st],
                    input := [], files := [], loading := False,
                    error := (if message err \<noteq> [] then message err else msg_generic),
                    abortControllerRef := Some False\<rparr>,
        sent = Some (formData st), history_calls = []\<rparr>"
  by (auto simp add: chat_defs Let_def)

lemma handleSend_abort_rejects:
  "\<not> (trim (input st) = [] \<and> files st = []) \<Longrightarrow> name err = ascii ''AbortError'' \<Longrightarrow>
     r = FetchRejects err \<or> r = JsonRejects ok err \<Longrightarrow>
     history_calls (handleSend False r st) = []"
  by (auto simp add: chat_defs Let_def)

lemma toString_digit: "n < 10 \<Longrightarrow> toString n = [of_nat (48 + n)]"
  by (simp add: toString.simps)

lemma userMessage_content:
  "userMessage st =
     \<lparr>role = User,
      content = (if files st = [] then input st
                 else attachment_marker (length (files st)) @ [0x20] @ input st)\<rparr>"
  by (simp add: userMessage_def)

lemma msg_canceled_distinct:
  "msg_canceled \<noteq> [] \<and> msg_canceled \<noteq> msg_generic \<and> msg_canceled \<noteq> msg_cannot_send
   \<and> msg_canceled \<noteq> msg_validation_chat"
  by (simp add: msg_canceled_def msg_generic_def msg_cannot_send_def msg_validation_chat_def)

lemma handleSend_cancel_messages:
  "messages (final (handleSend True r st)) = messages st"
  by (cases "trim (input st) = [] \<and> files st = []")
     (simp_all add: handleSend_invalid handleSend_cancel)

lemma history_calls_count:
  "length (history_calls (handleSend cancel r st)) =
     (if (trim (input st) = [] \<and> files st = []) \<or> cancel then 0
      else (case r of
              Body ok data \<Rightarrow> if ok \<and> success data then 1 else 0
            | FetchRejects err \<Rightarrow> 0
            | JsonRejects ok err \<Rightarrow> 0))"
proof (cases "trim (input st) = [] \<and> files st = []")
  case True
  then show ?thesis by (simp add: handleSend_invalid)
next
  case v: False
  show ?thesis
  proof (cases cancel)
    case True
    with v show ?thesis by (simp add: handleSend_cancel)
  next
    case nc: False
    show ?thesis
    proof (cases r)
      case (FetchRejects err)
      with v nc show ?thesis
        by (cases "name err = ascii ''AbortError''")
           (simp_all add: handleSend_rejects [where ok = True] handleSend_abort_rejects [where ok = True])
    next
      case (JsonRejects ok err)
      with v nc show ?thesis
        by (cases "name err = ascii ''AbortError''")
           (simp_all add: handleSend_rejects [where ok = ok] handleSend_abort_rejects [where ok = ok])
    next
      case (Body ok data)
      show ?thesis
      proof (cases "ok \<and> success data")
        case True
        with v nc Body show ?thesis by (simp add: handleSend_success)
      next
        case False
        then have "\<not> ok \<or> \<not> success data" by simp
        with v nc Body show ?thesis by (simp add: handleSend_body_failure)
      qed
    qed
  qed
qed

lemma addHistory_updater_user:
  "role m = User \<Longrightarrow> \<exists>u. addHistory_updater a b feat (xs @ m # ys) = Some u"
  by (simp add: addHistory_updater_def Let_def split: list.splits)

lemmas sb_defs = handleSend_sb_def try_block_sb_def catch_block_sb_def settle_def handleCancel_def

lemma userMessage_sb_files:
  "files st \<noteq> [] \<Longrightarrow>
     userMessage_sb st = \<lparr>role = User, content = attachment_marker (length (files st))\<rparr>"
  by (simp add: userMessage_sb_def)

lemma formData_sb_files: "files st \<noteq> [] \<Longrightarrow> formData_sb st = map FilePart (files st)"
  by (simp add: formData_sb_def)

lemma handleSend_sb_ignores_input:
  "files st \<noteq> [] \<Longrightarrow> handleSend_sb cancel r (st\<lparr>input := x\<rparr>) = handleSend_sb cancel r st"
  by (simp add: handleSend_sb_def userMessage_sb_def formData_sb_def Let_def cong: sum.case_cong)

lemma handleSend_sb_body:
  "files st \<noteq> [] \<Longrightarrow>
     messages (final (handleSend_sb False (Body ok data) st)) =
       messages st @ userMessage_sb st #
         (if ok then [\<lparr>role = Assistant, content = summary data\<rparr>] else [])"
  by (simp add: sb_defs Let_def)

text \<open>
  Claim C1, with the content of the USER turn as the code builds it. When the
  chat page's submit passes its check of the input (the input is not all white
  space, or a file is attached), nobody cancels, and the response is \<open>ok\<close>
  with a truthy \<open>success\<close>, the transcript afterwards is the prior transcript
  followed by exactly one USER turn and then one ASSISTANT turn whose content
  is \<open>data.response\<close>. The USER turn's content is the input when no file is
  attached, and the attachment marker, a space and the input when files are
  attached. \<open>addHistory\<close> is called once, with \<open>"chat"\<close> and that transcript.
\<close>

theorem C1_success_appends_user_then_assistant:
  assumes "\<not> (trim (input st) = [] \<and> files st = [])" and "success data"
  shows "messages (final (handleSend False (Body True data) st)) =
           messages st @
             [\<lparr>role = User,
               content = (if files st = [] then input st
                          else attachment_marker (length (files st)) @ [0x20] @ input st)\<rparr>,
              \<lparr>role = Assistant, content = response data\<rparr>]
         \<and> history_calls (handleSend False (Body True data) st) =
             [(ascii ''chat'', messages (final (handleSend False (Body True data) st)))]"
  using assms by (simp add: handleSend_success userMessage_content)

theorem C1_witness:
  "messages (final (handleSend False
       (Body True \<lparr>success = True, response = ascii ''ok'', summary = [], detail = None, error_p = None\<rparr>)
       \<lparr>messages = [\<lparr>role = Assistant, content = ascii ''Hello''\<rparr>], input = ascii ''hi'',
        files = [], loading = False, error = [], selectedKb = [], abortControllerRef = None,
        advancedMode = False\<rparr>))
   = [\<lparr>role = Assistant, content = ascii ''Hello''\<rparr>, \<lparr>role = User, content = ascii ''hi''\<rparr>,
      \<lparr>role = Assistant, content = ascii ''ok''\<rparr>]"
  using C1_success_appends_user_then_assistant
          [of "\<lparr>messages = [\<lparr>role = Assistant, content = ascii ''Hello''\<rparr>], input = ascii ''hi'',
                files = [], loading = False, error = [], selectedKb = [], abortControllerRef = None,
                advancedMode = False\<rparr>"
              "\<lparr>success = True, response = ascii ''ok'', summary = [], detail = None, error_p = None\<rparr>"]
  by (simp add: trim_def is_ws_def ascii_def)

text \<open>
  With one file attached and the input \<open>hi\<close>, the USER turn that a
  successful submit appends is not the input: its content is the marker for
  one file, a space and \<open>hi\<close>.
\<close>

theorem C1_counterexample:
  "messages (final (handleSend False
       (Body True \<lparr>success = True, response = ascii ''ok'', summary = [], detail = None, error_p = None\<rparr>)
       \<lparr>messages = [], input = ascii ''hi'', files = [File (ascii ''a.pdf'') 1],
        loading = False, error = [], selectedKb = [], abortControllerRef = None,
        advancedMode = True\<rparr>))
   \<noteq> [] @ [\<lparr>role = User, content = ascii ''hi''\<rparr>, \<lparr>role = Assistant, content = ascii ''ok''\<rparr>]
   \<and> messages (final (handleSend False
       (Body True \<lparr>success = True, response = ascii ''ok'', summary = [], detail = None, error_p = None\<rparr>)
       \<lparr>messages = [], input = ascii ''hi'', files = [File (ascii ''a.pdf'') 1],
        loading = False, error = [], selectedKb = [], abortControllerRef = None,
        advancedMode = True\<rparr>))
   = [\<lparr>role = User,
       content = [0x5b, 0x31, 0x20, 0x74, 0x1ec7, 0x70, 0x20, 0x111, 0xed, 0x6e, 0x68, 0x20,
                  0x6b, 0xe8, 0x6d, 0x5d, 0x20, 0x68, 0x69]\<rparr>,
      \<lparr>role = Assistant, content = ascii ''ok''\<rparr>]"
  by (simp add: chat_defs Let_def userMessage_def attachment_marker_def toString_digit
        ascii_def)

text \<open>
  Claim C2. After a submit of the chat page that is canceled while its request
  is pending, the transcript is the one before the submit. When the submit had
  passed the check of its input, the message shown is the one for a canceled
  request, which is none of the page's messages for a failure, nothing is
  handed to \<open>addHistory\<close>, the loading flag is cleared, and the state differs
  from the one any failed request leaves.
\<close>

theorem C2_cancel_rolls_back:
  "messages (final (handleSend True r st)) = messages st
   \<and> (\<not> (trim (input st) = [] \<and> files st = []) \<longrightarrow>
        error (final (handleSend True r st)) = msg_canceled
        \<and> \<not> loading (final (handleSend True r st))
        \<and> history_calls (handleSend True r st) = []
        \<and> msg_canceled \<noteq> [] \<and> msg_canceled \<noteq> msg_generic \<and> msg_canceled \<noteq> msg_cannot_send
        \<and> msg_canceled \<noteq> msg_validation_chat
        \<and> (\<forall>ok data. \<not> ok \<or> \<not> success data \<longrightarrow>
              final (handleSend False (Body ok data) st) \<noteq> final (handleSend True r st))
        \<and> (\<forall>ok err. name err \<noteq> ascii ''AbortError'' \<longrightarrow>
              final (handleSend False (FetchRejects err) st) \<noteq> final (handleSend True r st)
              \<and> final (handleSend False (JsonRejects ok err) st) \<noteq> final (handleSend True r st)))"
proof (intro conjI impI allI)
  show "messages (final (handleSend True r st)) = messages st"
    by (rule handleSend_cancel_messages)
next
  assume v: "\<not> (trim (input st) = [] \<and> files st = [])"
  show "error (final (handleSend True r st)) = msg_canceled"
    using v by (simp add: handleSend_cancel)
  show "\<not> loading (final (handleSend True r st))"
    using v by (simp add: handleSend_cancel)
  show "history_calls (handleSend True r st) = []"
    using v by (simp add: handleSend_cancel)
  show "msg_canceled \<noteq> []" "msg_canceled \<noteq> msg_generic" "msg_canceled \<noteq> msg_cannot_send"
    "msg_canceled \<noteq> msg_validation_chat"
    using msg_canceled_distinct by simp_all
  have m: "messages (final (handleSend True r st)) = messages st"
    by (rule handleSend_cancel_messages)
  {
    fix ok and data :: payload
    assume "\<not> ok \<or> \<not> success data"
    then have "messages (final (handleSend False (Body ok data) st)) = messages st @ [userMessage st]"
      using v by (simp add: handleSend_body_failure)
    with m have "messages (final (handleSend False (Body ok data) st))
        \<noteq> messages (final (handleSend True r st))"
      by simp
    then show "final (handleSend False (Body ok data) st) \<noteq> final (handleSend True r st)"
      by metis
  }
  {
    fix ok err
    assume n: "name err \<noteq> ascii ''AbortError''"
    have "messages (final (handleSend False (FetchRejects err) st)) = messages st @ [userMessage st]"
      using v n by (simp add: handleSend_rejects [where ok = ok])
    with m have "messages (final (handleSend False (FetchRejects err) st))
        \<noteq> messages (final (handleSend True r st))"
      by simp
    then show "final (handleSend False (FetchRejects err) st) \<noteq> final (handleSend True r st)"
      by metis
    have "messages (final (handleSend False (JsonRejects ok err) st)) = messages st @ [userMessage st]"
      using v n by (simp add: handleSend_rejects [where ok = ok])
    with m have "messages (final (handleSend False (JsonRejects ok err) st))
        \<noteq> messages (final (handleSend True r st))"
      by simp
    then show "final (handleSend False (JsonRejects ok err) st) \<noteq> final (handleSend True r st)"
      by metis
  }
qed

theorem C2_witness:
  "messages (final (handleSend True
       (Body True \<lparr>success = True, response = ascii ''ok'', summary = [], detail = None, error_p = None\<rparr>)
       \<lparr>messages = [\<lparr>role = Assistant, content = ascii ''Hello''\<rparr>], input = ascii ''hi'',
        files = [], loading = False, error = [], selectedKb = [], abortControllerRef = None,
        advancedMode = False\<rparr>))
     = [\<lparr>role = Assistant, content = ascii ''Hello''\<rparr>]
   \<and> error (final (handleSend True
       (Body True \<lparr>success = True, response = ascii ''ok'', summary = [], detail = None, error_p = None\<rparr>)
       \<lparr>messages = [\<lparr>role = Assistant, content = ascii ''Hello''\<rparr>], input = ascii ''hi'',
        files = [], loading = False, error = [], selectedKb = [], abortControllerRef = None,
        advancedMode = False\<rparr>))
     = msg_canceled"
  using C2_cancel_rolls_back
          [of "Body True \<lparr>success = True, response = ascii ''ok'', summary = [], detail = None, error_p = None\<rparr>"
              "\<lparr>messages = [\<lparr>role = Assistant, content = ascii ''Hello''\<rparr>], input = ascii ''hi'',
                files = [], loading = False, error = [], selectedKb = [], abortControllerRef = None,
                advancedMode = False\<rparr>"]
  by (simp add: trim_def is_ws_def ascii_def)

text \<open>
  Claim C3, with the error message as the code builds it. When a submit of the
  chat page passes the check of its input, is not canceled, and the request
  fails, the transcript afterwards is the prior
  transcript followed by the USER turn alone, and a non-empty error message is
  set. For a response that is not \<open>ok\<close> or whose \<open>success\<close> is falsy the
  message is the body's \<open>detail\<close> when that is a non-empty string, else its
  \<open>error\<close> when that is one, else the fixed message of the page. For a
  rejection of \<open>fetch\<close> or of \<open>response.json()\<close> that is no \<open>AbortError\<close>
  the message is the error's own when non-empty, else the general fixed
  message.
\<close>

theorem C3_failure_keeps_user_turn:
  assumes "\<not> (trim (input st) = [] \<and> files st = [])"
  shows "role (userMessage st) = User
     \<and> (\<not> ok \<or> \<not> success data \<longrightarrow>
          messages (final (handleSend False (Body ok data) st)) = messages st @ [userMessage st]
          \<and> error (final (handleSend False (Body ok data) st)) =
              (case detail data of
                 Some d \<Rightarrow> if d \<noteq> [] then d
                           else (case error_p data of
                                   Some e \<Rightarrow> if e \<noteq> [] then e else msg_cannot_send
                                 | None \<Rightarrow> msg_cannot_send)
               | None \<Rightarrow> (case error_p data of
                            Some e \<Rightarrow> if e \<noteq> [] then e else msg_cannot_send
                          | None \<Rightarrow> msg_cannot_send))
          \<and> error (final (handleSend False (Body ok data) st)) \<noteq> []
          \<and> \<not> loading (final (handleSend False (Body ok data) st)))
     \<and> (name err \<noteq> ascii ''AbortError'' \<and> (r = FetchRejects err \<or> r = JsonRejects ok err) \<longrightarrow>
          messages (final (handleSend False r st)) = messages st @ [userMessage st]
          \<and> error (final (handleSend False r st)) =
              (if message err \<noteq> [] then message err else msg_generic)
          \<and> error (final (handleSend False r st)) \<noteq> []
          \<and> \<not> loading (final (handleSend False r st)))"
proof (intro conjI impI)
  show "role (userMessage st) = User"
    by (simp add: userMessage_def)
next
  assume f: "\<not> ok \<or> \<not> success data"
  have eq: "handleSend False (Body ok data) st =
       \<lparr>final = st\<lparr>messages := messages st @ [userMessage st],
                    input := [], files := [], loading := False,
                    error := or_default (or_js (detail data) (error_p data)) msg_cannot_send,
                    abortControllerRef := Some False\<rparr>,
        sent = Some (formData st), history_calls = []\<rparr>"
    using assms f by (rule handleSend_body_failure)
  show "messages (final (handleSend False (Body ok data) st)) = messages st @ [userMessage st]"
    by (simp add: eq)
  show "error (final (handleSend False (Body ok data) st)) =
              (case detail data of
                 Some d \<Rightarrow> if d \<noteq> [] then d
                           else (case error_p data of
                                   Some e \<Rightarrow> if e \<noteq> [] then e else msg_cannot_send
                                 | None \<Rightarrow> msg_cannot_send)
               | None \<Rightarrow> (case error_p data of
                            Some e \<Rightarrow> if e \<noteq> [] then e else msg_cannot_send
                          | None \<Rightarrow> msg_cannot_send))"
    by (simp add: eq or_default_def or_js_def truthy_def split: option.splits)
  show "error (final (handleSend False (Body ok data) st)) \<noteq> []"
    by (simp add: eq or_default_nonempty)
  show "\<not> loading (final (handleSend False (Body ok data) st))"
    by (simp add: eq)
next
  assume a: "name err \<noteq> ascii ''AbortError'' \<and> (r = FetchRejects err \<or> r = JsonRejects ok err)"
  have eq: "handleSend False r st =
       \<lparr>final = st\<lparr>messages := messages st @ [userMessage st],
                    input := [], files := [], loading := False,
                    error := (if message err \<noteq> [] then message err else msg_generic),
                    abortControllerRef := Some False\<rparr>,
        sent = Some (formData st), history_calls = []\<rparr>"
    using assms a by (simp add: handleSend_rejects [where ok = ok])
  show "messages (final (handleSend False r st)) = messages st @ [userMessage st]"
    by (simp add: eq)
  show "error (final (handleSend False r st)) = (if message err \<noteq> [] then message err else msg_generic)"
    by (simp add: eq)
  show "error (final (handleSend False r st)) \<noteq> []"
    by (simp add: eq msg_generic_def)
  show "\<not> loading (final (handleSend False r st))"
    by (simp add: eq)
qed

theorem C3_witness:
  "messages (final (handleSend False
       (Body False \<lparr>success = False, response = [], summary = [], detail = Some (ascii ''boom''), error_p = None\<rparr>)
       \<lparr>messages = [\<lparr>role = Assistant, content = ascii ''Hello''\<rparr>], input = ascii ''hi'',
        files = [], loading = False, error = [], selectedKb = [], abortControllerRef = None,
        advancedMode = False\<rparr>))
     = [\<lparr>role = Assistant, content = ascii ''Hello''\<rparr>, \<lparr>role = User, content = ascii ''hi''\<rparr>]
   \<and> error (final (handleSend False
       (Body False \<lparr>success = False, response = [], summary = [], detail = Some (ascii ''boom''), error_p = None\<rparr>)
       \<lparr>messages = [\<lparr>role = Assistant, content = ascii ''Hello''\<rparr>], input = ascii ''hi'',
        files = [], loading = False, error = [], selectedKb = [], abortControllerRef = None,
        advancedMode = False\<rparr>))
     = ascii ''boom''
   \<and> error (final (handleSend False
       (FetchRejects (Exn (ascii ''TypeError'') (ascii ''Failed to fetch'')))
       \<lparr>messages = [\<lparr>role = Assistant, content = ascii ''Hello''\<rparr>], input = ascii ''hi'',
        files = [], loading = False, error = [], selectedKb = [], abortControllerRef = None,
        advancedMode = False\<rparr>))
     = ascii ''Failed to fetch''"
  using C3_failure_keeps_user_turn
          [where st = "\<lparr>messages = [\<lparr>role = Assistant, content = ascii ''Hello''\<rparr>], input = ascii ''hi'',
                files = [], loading = False, error = [], selectedKb = [], abortControllerRef = None,
                advancedMode = False\<rparr>"
             and ok = False
             and data = "\<lparr>success = False, response = [], summary = [], detail = Some (ascii ''boom''), error_p = None\<rparr>"
             and err = "Exn (ascii ''TypeError'') (ascii ''Failed to fetch'')"
             and r = "FetchRejects (Exn (ascii ''TypeError'') (ascii ''Failed to fetch''))"]
  by (simp add: trim_def is_ws_def ascii_def userMessage_def)

text \<open>
  The message is not always the body's \<open>detail\<close> or one of the fixed
  messages. When \<open>fetch\<close> rejects with the message \<open>Failed to fetch\<close>,
  that text is shown, and no body exists. When a response that is not \<open>ok\<close>
  has no \<open>detail\<close> but an \<open>error\<close> field, the \<open>error\<close> field is shown.
  Neither text is one of the two fixed messages.
\<close>

theorem C3_counterexample:
  "error (final (handleSend False
       (FetchRejects (Exn (ascii ''TypeError'') (ascii ''Failed to fetch'')))
       \<lparr>messages = [\<lparr>role = Assistant, content = ascii ''Hello''\<rparr>], input = ascii ''hi'',
        files = [], loading = False, error = [], selectedKb = [], abortControllerRef = None,
        advancedMode = False\<rparr>))
     = ascii ''Failed to fetch''
   \<and> ascii ''Failed to fetch'' \<noteq> msg_generic
   \<and> ascii ''Failed to fetch'' \<noteq> msg_cannot_send
   \<and> error (final (handleSend False
       (Body False \<lparr>success = False, response = [], summary = [], detail = None,
                    error_p = Some (ascii ''quota exceeded'')\<rparr>)
       \<lparr>messages = [\<lparr>role = Assistant, content = ascii ''Hello''\<rparr>], input = ascii ''hi'',
        files = [], loading = False, error = [], selectedKb = [], abortControllerRef = None,
        advancedMode = False\<rparr>))
     = ascii ''quota exceeded''
   \<and> ascii ''quota exceeded'' \<noteq> msg_generic
   \<and> ascii ''quota exceeded'' \<noteq> msg_cannot_send"
  by (simp add: chat_defs Let_def trim_def is_ws_def ascii_def msg_generic_def
        msg_cannot_send_def or_default_def or_js_def truthy_def)

text \<open>
  Claim C9. A run of the chat page's \<open>handleSend\<close> calls \<open>addHistory\<close> exactly
  once when the input passes the check, nobody cancels and the response is
  \<open>ok\<close> with a truthy \<open>success\<close>; in every other case (failed check,
  cancellation, rejection, failing response) it makes no call. The call made
  on success reaches \<open>setHistories\<close>, since its transcript holds the USER turn.
\<close>

theorem C9_one_addHistory_on_success_only:
  "length (history_calls (handleSend cancel r st)) =
     (if (trim (input st) = [] \<and> files st = []) \<or> cancel then 0
      else (case r of
              Body ok data \<Rightarrow> if ok \<and> success data then 1 else 0
            | FetchRejects err \<Rightarrow> 0
            | JsonRejects ok err \<Rightarrow> 0))
   \<and> (\<forall>c \<in> set (history_calls (handleSend cancel r st)).
         \<exists>u. addHistory_updater now_id now_ts (fst c) (snd c) = Some u)"
proof
  show "length (history_calls (handleSend cancel r st)) =
     (if (trim (input st) = [] \<and> files st = []) \<or> cancel then 0
      else (case r of
              Body ok data \<Rightarrow> if ok \<and> success data then 1 else 0
            | FetchRejects err \<Rightarrow> 0
            | JsonRejects ok err \<Rightarrow> 0))"
    by (rule history_calls_count)
next
  show "\<forall>c \<in> set (history_calls (handleSend cancel r st)).
         \<exists>u. addHistory_updater now_id now_ts (fst c) (snd c) = Some u"
  proof
    fix c
    assume c: "c \<in> set (history_calls (handleSend cancel r st))"
    then have pos: "length (history_calls (handleSend cancel r st)) \<noteq> 0"
      by auto
    have v: "\<not> (trim (input st) = [] \<and> files st = [])" and nc: "\<not> cancel"
      using pos by (auto simp add: history_calls_count split: if_splits)
    obtain data where r: "r = Body True data" and s: "success data"
      using pos v nc by (auto simp add: history_calls_count split: if_splits remote.splits)
    have "c = (ascii ''chat'',
       messages st @ userMessage st # [\<lparr>role = Assistant, content = response data\<rparr>])"
      using c v nc r s by (simp add: handleSend_success)
    moreover have "role (userMessage st) = User"
      by (simp add: userMessage_def)
    ultimately show "\<exists>u. addHistory_updater now_id now_ts (fst c) (snd c) = Some u"
      by (simp add: addHistory_updater_user)
  qed
qed

theorem C9_witness:
  "length (history_calls (handleSend False
       (Body True \<lparr>success = True, response = ascii ''ok'', summary = [], detail = None, error_p = None\<rparr>)
       \<lparr>messages = [], input = ascii ''hi'',
        files = [], loading = False, error = [], selectedKb = [], abortControllerRef = None,
        advancedMode = False\<rparr>)) = 1
   \<and> length (history_calls (handleSend True
       (Body True \<lparr>success = True, response = ascii ''ok'', summary = [], detail = None, error_p = None\<rparr>)
       \<lparr>messages = [], input = ascii ''hi'',
        files = [], loading = False, error = [], selectedKb = [], abortControllerRef = None,
        advancedMode = False\<rparr>)) = 0
   \<and> length (history_calls (handleSend False
       (Body False \<lparr>success = True, response = ascii ''ok'', summary = [], detail = None, error_p = None\<rparr>)
       \<lparr>messages = [], input = ascii ''hi'',
        files = [], loading = False, error = [], selectedKb = [], abortControllerRef = None,
        advancedMode = False\<rparr>)) = 0
   \<and> length (history_calls (handleSend False
       (Body True \<lparr>success = True, response = ascii ''ok'', summary = [], detail = None, error_p = None\<rparr>)
       \<lparr>messages = [], input = ascii '' '',
        files = [], loading = False, error = [], selectedKb = [], abortControllerRef = None,
        advancedMode = False\<rparr>)) = 0"
  using C9_one_addHistory_on_success_only
          [of False "Body True \<lparr>success = True, response = ascii ''ok'', summary = [], detail = None, error_p = None\<rparr>"
              "\<lparr>messages = [], input = ascii ''hi'',
                files = [], loading = False, error = [], selectedKb = [], abortControllerRef = None,
                advancedMode = False\<rparr>" 0 0]
        C9_one_addHistory_on_success_only
          [of True "Body True \<lparr>success = True, response = ascii ''ok'', summary = [], detail = None, error_p = None\<rparr>"
              "\<lparr>messages = [], input = ascii ''hi'',
                files = [], loading = False, error = [], selectedKb = [], abortControllerRef = None,
                advancedMode = False\<rparr>" 0 0]
        C9_one_addHistory_on_success_only
          [of False "Body False \<lparr>success = True, response = ascii ''ok'', summary = [], detail = None, error_p = None\<rparr>"
              "\<lparr>messages = [], input = ascii ''hi'',
                files = [], loading = False, error = [], selectedKb = [], abortControllerRef = None,
                advancedMode = False\<rparr>" 0 0]
        C9_one_addHistory_on_success_only
          [of False "Body True \<lparr>success = True, response = ascii ''ok'', summary = [], detail = None, error_p = None\<rparr>"
              "\<lparr>messages = [], input = ascii '' '',
                files = [], loading = False, error = [], selectedKb = [], abortControllerRef = None,
                advancedMode = False\<rparr>" 0 0]
  by (simp add: trim_def is_ws_def ascii_def)

text \<open>
  Claim C10. On the study-buddy page, when at least one file is attached, the
  USER turn that \<open>handleSend\<close> appends has as content exactly the marker for
  the number of files; the \<open>FormData\<close> given to \<open>fetch\<close> holds the files and
  no request descriptor; the input field is cleared; and the whole outcome of
  the run is the same whatever text was typed.
\<close>

theorem C10_study_buddy_files_discard_text:
  assumes "files st \<noteq> []"
  shows "userMessage_sb st =
           \<lparr>role = User,
            content = [0x5b] @ toString (length (files st)) @
              [0x20, 0x74, 0x1ec7, 0x70, 0x20, 0x111, 0xed, 0x6e, 0x68, 0x20, 0x6b, 0xe8, 0x6d, 0x5d]\<rparr>
         \<and> messages (final (handleSend_sb False (Body ok data) st)) =
             messages st @ userMessage_sb st #
               (if ok then [\<lparr>role = Assistant, content = summary data\<rparr>] else [])
         \<and> sent (handleSend_sb cancel r st) = Some (map FilePart (files st))
         \<and> (\<forall>q. RequestPart q \<notin> set (map FilePart (files st)))
         \<and> input (final (handleSend_sb cancel r st)) = []
         \<and> handleSend_sb cancel r (st\<lparr>input := x\<rparr>) = handleSend_sb cancel r st"
proof (intro conjI)
  show "userMessage_sb st =
           \<lparr>role = User,
            content = [0x5b] @ toString (length (files st)) @
              [0x20, 0x74, 0x1ec7, 0x70, 0x20, 0x111, 0xed, 0x6e, 0x68, 0x20, 0x6b, 0xe8, 0x6d, 0x5d]\<rparr>"
    using assms by (simp add: userMessage_sb_files attachment_marker_def)
  show "messages (final (handleSend_sb False (Body ok data) st)) =
             messages st @ userMessage_sb st #
               (if ok then [\<lparr>role = Assistant, content = summary data\<rparr>] else [])"
    using assms by (rule handleSend_sb_body)
  show "sent (handleSend_sb cancel r st) = Some (map FilePart (files st))"
    using assms by (simp add: handleSend_sb_def formData_sb_files Let_def split: prod.splits)
  show "\<forall>q. RequestPart q \<notin> set (map FilePart (files st))"
    by auto
  show "input (final (handleSend_sb cancel r st)) = []"
    using assms by (auto simp add: sb_defs Let_def split: remote.splits)
  show "handleSend_sb cancel r (st\<lparr>input := x\<rparr>) = handleSend_sb cancel r st"
    using assms by (rule handleSend_sb_ignores_input)
qed

theorem C10_witness:
  "messages (final (handleSend_sb False
       (Body True \<lparr>success = True, response = [], summary = ascii ''sum'', detail = None, error_p = None\<rparr>)
       \<lparr>messages = [], input = ascii ''please summarize'',
        files = [File (ascii ''a.pdf'') 10, File (ascii ''b.pdf'') 20],
        loading = False, error = [], selectedKb = [], abortControllerRef = None\<rparr>))
     = [\<lparr>role = User,
         content = [0x5b, 0x32, 0x20, 0x74, 0x1ec7, 0x70, 0x20, 0x111, 0xed, 0x6e, 0x68, 0x20,
                    0x6b, 0xe8, 0x6d, 0x5d]\<rparr>,
        \<lparr>role = Assistant, content = ascii ''sum''\<rparr>]
   \<and> sent (handleSend_sb False
       (Body True \<lparr>success = True, response = [], summary = ascii ''sum'', detail = None, error_p = None\<rparr>)
       \<lparr>messages = [], input = ascii ''please summarize'',
        files = [File (ascii ''a.pdf'') 10, File (ascii ''b.pdf'') 20],
        loading = False, error = [], selectedKb = [], abortControllerRef = None\<rparr>)
     = Some [FilePart (File (ascii ''a.pdf'') 10), FilePart (File (ascii ''b.pdf'') 20)]"
  using C10_study_buddy_files_discard_text
          [where st = "\<lparr>messages = [], input = ascii ''please summarize'',
                files = [File (ascii ''a.pdf'') 10, File (ascii ''b.pdf'') 20],
                loading = False, error = [], selectedKb = [], abortControllerRef = None\<rparr>"
             and ok = True
             and data = "\<lparr>success = True, response = [], summary = ascii ''sum'', detail = None, error_p = None\<rparr>"
             and cancel = False
             and r = "Body True \<lparr>success = True, response = [], summary = ascii ''sum'', detail = None, error_p = None\<rparr>"]
  by (simp add: toString_digit)

end
